theory Spec2Isabelle
  imports Main "HOL-Library.Sublist"
begin

section \<open>The gold-shop service worker (static/sw.js)\<close>

text \<open>
  The worker registers three listeners: \<open>install\<close>, \<open>fetch\<close> and \<open>activate\<close>.
  Each is embedded as a function from the host's state (the cache storage, the
  network) to a run: what the listener hands to the host, the host operations it
  invokes in the order of their invocation, and the cache storage once every
  operation it started has finished.
\<close>

subsection \<open>Requests, responses, errors and promises\<close>

text \<open>
  A request as the listener reads it: \<open>event.request.mode\<close>, \<open>.method\<close>, \<open>.url\<close> and
  \<open>.headers\<close>. Header names are stored in lower case, as a \<open>Headers\<close> object keeps them.
  URLs are kept in resolved form: a manifest path such as \<open>/offline.html\<close> stands for
  its resolution against the worker's origin.
\<close>

record request =
  mode :: string
  "method" :: string
  url :: string
  headers :: "(string \<times> string) list"

record response =
  status :: nat
  type :: string
  body :: string

datatype js_error = TypeError | NetworkError | StorageError

text \<open>A settled promise: fulfilled with a value, or rejected with an error.\<close>

datatype 'a promise = Fulfilled 'a | Rejected js_error

text \<open>\<open>headers.get(name)\<close>: the value, or \<open>null\<close> (here \<open>None\<close>) when the header is absent.\<close>

definition headers_get :: "(string \<times> string) list \<Rightarrow> string \<Rightarrow> string option" where
  "headers_get hs name = map_of hs name"

text \<open>\<open>String.prototype.includes\<close>: does \<open>sub\<close> occur in \<open>s\<close> as a contiguous substring?\<close>

fun js_includes :: "string \<Rightarrow> string \<Rightarrow> bool" where
  "js_includes [] sub = (sub = [])"
| "js_includes (c # cs) sub = (prefix sub (c # cs) \<or> js_includes cs sub)"

text \<open>
  A string handed to \<open>caches.match\<close> or \<open>cache.add\<close> is turned into a request by the
  \<open>Request\<close> constructor: method GET, mode \<open>cors\<close>, no headers.
\<close>

definition request_of_url :: "string \<Rightarrow> request" where
  "request_of_url u = \<lparr>mode = ''cors'', method = ''GET'', url = u, headers = []\<rparr>"

subsection \<open>The host's cache storage\<close>

text \<open>
  A cache instance maps request URLs to stored responses; the cache storage lists
  the named instances in the order of their creation, which is the order in which
  \<open>caches.keys()\<close> enumerates them and \<open>caches.match\<close> searches them.
  A lookup matches GET requests only (the host's default, \<open>ignoreMethod\<close> unset).
\<close>

type_synonym cache = "(string \<times> response) list"
type_synonym cache_storage = "(string \<times> cache) list"

definition cache_match :: "cache \<Rightarrow> request \<Rightarrow> response option" where
  "cache_match c r = (if method r = ''GET'' then map_of c (url r) else None)"

fun caches_match :: "cache_storage \<Rightarrow> request \<Rightarrow> response option" where
  "caches_match [] r = None"
| "caches_match ((name, c) # cs) r =
     (case cache_match c r of Some found \<Rightarrow> Some found | None \<Rightarrow> caches_match cs r)"

text \<open>\<open>cache.put\<close> replaces whatever was stored under the same key.\<close>

definition cache_put :: "cache \<Rightarrow> string \<Rightarrow> response \<Rightarrow> cache" where
  "cache_put c u resp = filter (\<lambda>(k, old). k \<noteq> u) c @ [(u, resp)]"

definition caches_keys :: "cache_storage \<Rightarrow> string list" where
  "caches_keys st = map fst st"

text \<open>\<open>caches.open(name)\<close> creates an empty instance when none of that name exists.\<close>

definition caches_open :: "cache_storage \<Rightarrow> string \<Rightarrow> cache_storage" where
  "caches_open st name = (if name \<in> set (caches_keys st) then st else st @ [(name, [])])"

definition caches_delete :: "cache_storage \<Rightarrow> string \<Rightarrow> cache_storage" where
  "caches_delete st name = filter (\<lambda>(n, c). n \<noteq> name) st"

text \<open>Writing through an opened instance changes the instance of that name in the storage.\<close>

definition update_cache :: "string \<Rightarrow> (cache \<Rightarrow> cache) \<Rightarrow> cache_storage \<Rightarrow> cache_storage" where
  "update_cache name f st = map (\<lambda>(n, c). if n = name then (n, f c) else (n, c)) st"

text \<open>The entry stored under URL \<open>u\<close> in the instance called \<open>name\<close>, if both exist.\<close>

definition entry_in :: "cache_storage \<Rightarrow> string \<Rightarrow> string \<Rightarrow> response option" where
  "entry_in st name u = (case map_of st name of None \<Rightarrow> None | Some c \<Rightarrow> map_of c u)"

subsection \<open>The host's answers and the operations a listener invokes\<close>

text \<open>
  The host decides what the listener cannot: how the network answers a request
  (\<open>fetch\<close> fulfils with a response or rejects; \<open>Fulfilled None\<close> is the missing response
  that line 62 tests for) and whether \<open>caches.open\<close> fulfils. These are the operations
  whose failure the worker handles somewhere; lookups, writes into an opened
  instance, enumeration and deletion are taken to succeed.
\<close>

record host =
  network :: "request \<Rightarrow> response option promise"
  opens :: "string \<Rightarrow> bool"

text \<open>
  Host operations in the order in which the listener invokes them. \<open>Settled\<close> marks
  the moment the promise handed to \<open>event.waitUntil\<close> or \<open>event.respondWith\<close> settles.
  A listener body runs to completion before any promise callback does, so the
  operations of the synchronous part come first.
\<close>

datatype effect =
    CachesMatch request
  | Fetch request
  | CachesOpen string
  | CachePut string
  | CacheAdd string
  | CachesKeys
  | CachesDelete string
  | ClientsClaim
  | Settled

record 'a run =
  outcome :: 'a
  effects :: "effect list"
  storage :: cache_storage

text \<open>\<open>a\<close> is invoked, and the first \<open>b\<close> comes after the first \<open>a\<close>.\<close>

fun occurs_before :: "'a \<Rightarrow> 'a \<Rightarrow> 'a list \<Rightarrow> bool" where
  "occurs_before a b [] = False"
| "occurs_before a b (x # xs) =
     (if x = a then b \<in> set xs else x \<noteq> b \<and> occurs_before a b xs)"

subsection \<open>Constants (lines 2-19)\<close>

definition CACHE_NAME :: string where
  "CACHE_NAME = ''goldshop-cache-v3''"

definition urlsToCache :: "string list" where
  "urlsToCache =
     [''/'', ''/dashboard'', ''/login'', ''/static/style.css'',
      ''/static/images/icon-192x192.png'', ''/static/images/icon-512x512.png'',
      ''/static/images/icon-maskable-192x192.png'', ''/static/sw.js'',
      ''/offline.html'']"

subsection \<open>The install listener (lines 22-41)\<close>

text \<open>
  \<open>cache.add(url)\<close> fetches the URL and stores the response; it rejects when the
  fetch rejects or the status is not an ok status (or is 206).
\<close>

definition cache_add :: "host \<Rightarrow> cache \<Rightarrow> string \<Rightarrow> js_error + cache" where
  "cache_add h c u =
     (case network h (request_of_url u) of
        Rejected e \<Rightarrow> Inl e
      | Fulfilled None \<Rightarrow> Inl TypeError
      | Fulfilled (Some resp) \<Rightarrow>
          if 200 \<le> status resp \<and> status resp \<le> 299 \<and> status resp \<noteq> 206
          then Inr (cache_put c u resp) else Inl TypeError)"

text \<open>
  Lines 29-35: every path gets its own \<open>cache.add(url).catch(...)\<close>; a rejected add
  is logged and leaves the cache as it was. The adds write distinct keys, so the
  order in which they finish does not change any lookup.
\<close>

fun cachePromises :: "host \<Rightarrow> string list \<Rightarrow> cache \<Rightarrow> cache" where
  "cachePromises h [] c = c"
| "cachePromises h (u # us) c =
     cachePromises h us (case cache_add h c u of Inl error \<Rightarrow> c | Inr c' \<Rightarrow> c')"

text \<open>
  The promise handed to \<open>waitUntil\<close> is \<open>Promise.all\<close> of the caught adds behind
  \<open>caches.open\<close>, with a final \<open>catch\<close> (lines 37-39) that logs a failure to open.
\<close>

definition install_handler :: "host \<Rightarrow> cache_storage \<Rightarrow> unit promise run" where
  "install_handler h st =
     (if opens h CACHE_NAME
      then \<lparr>outcome = Fulfilled (),
            effects = CachesOpen CACHE_NAME # map CacheAdd urlsToCache @ [Settled],
            storage = update_cache CACHE_NAME (cachePromises h urlsToCache)
                        (caches_open st CACHE_NAME)\<rparr>
      else \<lparr>outcome = Fulfilled (),
            effects = [CachesOpen CACHE_NAME, Settled],
            storage = st\<rparr>)"

subsection \<open>The fetch listener (lines 44-100)\<close>

text \<open>
  Lines 46-47. \<open>||\<close> and \<open>&&\<close> short-circuit, so the Accept header is read only when
  the mode is not \<open>navigate\<close> and the method is GET; calling \<open>.includes\<close> on the
  \<open>null\<close> of an absent header throws a TypeError.
\<close>

definition isHtmlNavigation :: "request \<Rightarrow> js_error + bool" where
  "isHtmlNavigation r =
     (if mode r = ''navigate'' then Inr True
      else if method r = ''GET''
      then (case headers_get (headers r) ''accept'' of
              None \<Rightarrow> Inl TypeError
            | Some accept \<Rightarrow> Inr (js_includes accept ''text/html''))
      else Inr False)"

datatype handler_result = Threw js_error | RespondWith "response option promise"

text \<open>Lines 67 and 93: \<open>caches.match('/offline.html')\<close>; \<open>undefined\<close> is \<open>None\<close>.\<close>

definition offline_fallback :: "cache_storage \<Rightarrow> response option" where
  "offline_fallback st = caches_match st (request_of_url ''/offline.html'')"

text \<open>Line 62: \<open>!networkResponse || status !== 200 || type !== 'basic'\<close>.\<close>

definition invalid_response :: "response option \<Rightarrow> bool" where
  "invalid_response networkResponse =
     (case networkResponse of
        None \<Rightarrow> True
      | Some resp \<Rightarrow> status resp \<noteq> 200 \<or> type resp \<noteq> ''basic'')"

text \<open>
  Lines 75-86: the valid response goes back to the caller; the write is started
  with \<open>caches.open\<close> and not awaited. The instance is opened (and so created)
  before the method and the URL are tested.
\<close>

definition write_through :: "host \<Rightarrow> cache_storage \<Rightarrow> request \<Rightarrow> response \<Rightarrow> handler_result run" where
  "write_through h st r resp =
     (if opens h CACHE_NAME
      then (if method r = ''GET'' \<and> \<not> js_includes (url r) ''/api/''
            then \<lparr>outcome = RespondWith (Fulfilled (Some resp)),
                  effects = [CachesMatch r, Fetch r, CachesOpen CACHE_NAME, Settled,
                             CachePut (url r)],
                  storage = update_cache CACHE_NAME (\<lambda>c. cache_put c (url r) resp)
                              (caches_open st CACHE_NAME)\<rparr>
            else \<lparr>outcome = RespondWith (Fulfilled (Some resp)),
                  effects = [CachesMatch r, Fetch r, CachesOpen CACHE_NAME, Settled],
                  storage = caches_open st CACHE_NAME\<rparr>)
      else \<lparr>outcome = RespondWith (Fulfilled (Some resp)),
            effects = [CachesMatch r, Fetch r, CachesOpen CACHE_NAME, Settled],
            storage = st\<rparr>)"

text \<open>Lines 60-87 (the \<open>then\<close> of the fetch) and 88-97 (its \<open>catch\<close>).\<close>

definition from_network :: "host \<Rightarrow> cache_storage \<Rightarrow> request \<Rightarrow> bool \<Rightarrow> handler_result run" where
  "from_network h st r nav =
     (case network h r of
        Fulfilled networkResponse \<Rightarrow>
          if invalid_response networkResponse
          then (if nav
                then \<lparr>outcome = RespondWith (Fulfilled (offline_fallback st)),
                      effects = [CachesMatch r, Fetch r,
                                 CachesMatch (request_of_url ''/offline.html''), Settled],
                      storage = st\<rparr>
                else \<lparr>outcome = RespondWith (Fulfilled networkResponse),
                      effects = [CachesMatch r, Fetch r, Settled],
                      storage = st\<rparr>)
          else (case networkResponse of
                  None \<Rightarrow> \<comment> \<open>never reached: a missing response is invalid\<close>
                         \<lparr>outcome = RespondWith (Fulfilled None),
                            effects = [CachesMatch r, Fetch r, Settled],
                            storage = st\<rparr>
                | Some resp \<Rightarrow> write_through h st r resp)
      | Rejected error \<Rightarrow>
          if nav
          then \<lparr>outcome = RespondWith (Fulfilled (offline_fallback st)),
                effects = [CachesMatch r, Fetch r,
                           CachesMatch (request_of_url ''/offline.html''), Settled],
                storage = st\<rparr>
          else \<lparr>outcome = RespondWith (Rejected error),
                effects = [CachesMatch r, Fetch r, Settled],
                storage = st\<rparr>)"

text \<open>
  The listener: the classification is computed first, outside \<open>respondWith\<close>, so a
  throw there ends the listener before any host operation; then the cache lookup
  (lines 50-56), then the network.
\<close>

definition fetch_handler :: "host \<Rightarrow> cache_storage \<Rightarrow> request \<Rightarrow> handler_result run" where
  "fetch_handler h st r =
     (case isHtmlNavigation r of
        Inl error \<Rightarrow> \<lparr>outcome = Threw error, effects = [], storage = st\<rparr>
      | Inr nav \<Rightarrow>
          (case caches_match st r of
             Some cachedResponse \<Rightarrow>
               \<lparr>outcome = RespondWith (Fulfilled (Some cachedResponse)),
                effects = [CachesMatch r, Settled],
                storage = st\<rparr>
           | None \<Rightarrow> from_network h st r nav))"

subsection \<open>The activate listener (lines 103-120)\<close>

definition cacheWhitelist :: "string list" where
  "cacheWhitelist = [CACHE_NAME]"

text \<open>
  \<open>caches.keys()\<close> is invoked and its callback registered, then \<open>clients.claim()\<close> is
  invoked in the listener body itself (line 119); the callback runs afterwards and
  deletes every name that \<open>cacheWhitelist.indexOf\<close> does not find. \<open>waitUntil\<close> holds
  the \<open>Promise.all\<close> of the deletions.
\<close>

definition activate_handler :: "cache_storage \<Rightarrow> unit promise run" where
  "activate_handler st =
     (let cacheNames = caches_keys st;
          stale = filter (\<lambda>cacheName. cacheName \<notin> set cacheWhitelist) cacheNames
      in \<lparr>outcome = Fulfilled (),
          effects = [CachesKeys, ClientsClaim] @ map CachesDelete stale @ [Settled],
          storage = fold (\<lambda>cacheName s. caches_delete s cacheName) stale st\<rparr>)"

subsection \<open>Scenarios\<close>

text \<open>
  Concrete hosts, requests and responses on which the properties below are run:
  a network that is down, a network that answers every request with a same-origin
  200 response, one on which only \<open>/offline.html\<close> is unreachable, and one whose
  cache storage cannot be opened.
\<close>

definition ok_page :: "string \<Rightarrow> response" where
  "ok_page b = \<lparr>status = 200, type = ''basic'', body = b\<rparr>"

definition offline_host :: host where
  "offline_host = \<lparr>network = (\<lambda>r. Rejected NetworkError), opens = (\<lambda>name. True)\<rparr>"

definition online_host :: host where
  "online_host = \<lparr>network = (\<lambda>r. Fulfilled (Some (ok_page (url r)))), opens = (\<lambda>name. True)\<rparr>"


definition sealed_host :: host where
  "sealed_host = \<lparr>network = (\<lambda>r. Fulfilled (Some (ok_page (url r)))), opens = (\<lambda>name. False)\<rparr>"

definition navigate_to :: "string \<Rightarrow> request" where
  "navigate_to u =
     \<lparr>mode = ''navigate'', method = ''GET'', url = u,
      headers = [(''accept'', ''text/html,application/xhtml+xml'')]\<rparr>"

definition subresource :: "string \<Rightarrow> request" where
  "subresource u =
     \<lparr>mode = ''no-cors'', method = ''GET'', url = u, headers = [(''accept'', ''*/*'')]\<rparr>"

section \<open>Properties\<close>

subsection \<open>Facts about the cache storage\<close>

lemma js_includes_sublist: "js_includes s sub \<longleftrightarrow> sublist sub s"
  by (induction s) (auto simp: sublist_Cons_right)






lemma caches_match_None_GET:
  "method r = ''GET'' \<Longrightarrow> caches_match st r = None \<longleftrightarrow> (\<forall>(n, c) \<in> set st. map_of c (url r) = None)"
  by (induction st) (auto simp: cache_match_def split: option.splits)

lemma map_of_filter_key: "map_of (filter (\<lambda>(n, c). n = k) st) k = map_of st k"
  by (induction st) auto

lemma occurs_before_append:
  "a \<in> set xs \<Longrightarrow> b \<notin> set xs \<Longrightarrow> occurs_before a b (xs @ b # ys)"
  by (induction xs) auto

subsection \<open>The fetch listener\<close>

text \<open>
  Once the classification has produced a value, a cached match is the answer: the
  listener hands it back unchanged and invokes neither the network nor any write.
\<close>

lemma cache_precedence_when_classified:
  assumes "isHtmlNavigation r = Inr nav" and "caches_match st r = Some cachedResponse"
  shows "fetch_handler h st r =
           \<lparr>outcome = RespondWith (Fulfilled (Some cachedResponse)),
            effects = [CachesMatch r, Settled], storage = st\<rparr>"
  using assms by (simp add: fetch_handler_def)

theorem cache_precedence_when_classified_witness:
  "isHtmlNavigation (subresource ''/static/style.css'') = Inr False
   \<and> caches_match [(''goldshop-cache-v2'', [(''/static/style.css'', ok_page ''css'')])]
        (subresource ''/static/style.css'') = Some (ok_page ''css'')
   \<and> fetch_handler offline_host
        [(''goldshop-cache-v2'', [(''/static/style.css'', ok_page ''css'')])]
        (subresource ''/static/style.css'')
      = \<lparr>outcome = RespondWith (Fulfilled (Some (ok_page ''css''))),
         effects = [CachesMatch (subresource ''/static/style.css''), Settled],
         storage = [(''goldshop-cache-v2'', [(''/static/style.css'', ok_page ''css'')])]\<rparr>"
proof -
  let ?st = "[(''goldshop-cache-v2'', [(''/static/style.css'', ok_page ''css'')])]"
  let ?r = "subresource ''/static/style.css''"
  have nav: "isHtmlNavigation ?r = Inr False"
    by (simp add: isHtmlNavigation_def subresource_def headers_get_def)
  have hit: "caches_match ?st ?r = Some (ok_page ''css'')"
    by (simp add: cache_match_def subresource_def)
  from cache_precedence_when_classified [OF nav hit, of offline_host] nav hit
  show ?thesis by simp
qed

text \<open>
  C1. Every intercepted request with a matching cached entry, in any cache
  instance, is to be answered with that entry and without a network fetch. The
  listener computes the classification of lines 46-47 before the lookup of line 50,
  so a GET request outside navigation mode that carries no Accept header never
  reaches the lookup: here \<open>/static/style.css\<close> is cached, and the listener throws
  instead of answering with the entry.
\<close>

theorem fetch_handler_cached_without_accept_throws:
  "caches_match [(CACHE_NAME, [(''/static/style.css'', ok_page ''css'')])]
       (request_of_url ''/static/style.css'') = Some (ok_page ''css'')
   \<and> fetch_handler online_host [(CACHE_NAME, [(''/static/style.css'', ok_page ''css'')])]
       (request_of_url ''/static/style.css'')
     = \<lparr>outcome = Threw TypeError, effects = [],
        storage = [(CACHE_NAME, [(''/static/style.css'', ok_page ''css'')])]\<rparr>"
  by (simp add: fetch_handler_def isHtmlNavigation_def request_of_url_def headers_get_def
      cache_match_def)



text \<open>
  C3. A request classified as not an HTML navigation, with no cached match, whose
  network fetch rejects: the promise handed to \<open>respondWith\<close> rejects with the same
  error. The run is the lookup, the fetch and nothing else: no lookup of the offline
  page, no other response, no change of the storage.
\<close>

theorem non_navigation_failure_propagates:
  assumes "isHtmlNavigation r = Inr False"
    and "caches_match st r = None"
    and "network h r = Rejected error"
  shows "fetch_handler h st r =
           \<lparr>outcome = RespondWith (Rejected error),
            effects = [CachesMatch r, Fetch r, Settled], storage = st\<rparr>"
  using assms by (simp add: fetch_handler_def from_network_def)

theorem non_navigation_failure_propagates_witness:
  "isHtmlNavigation (subresource ''/static/logo.png'') = Inr False
   \<and> caches_match [(CACHE_NAME, [(''/offline.html'', ok_page ''offline'')])]
        (subresource ''/static/logo.png'') = None
   \<and> network offline_host (subresource ''/static/logo.png'') = Rejected NetworkError
   \<and> fetch_handler offline_host [(CACHE_NAME, [(''/offline.html'', ok_page ''offline'')])]
        (subresource ''/static/logo.png'')
      = \<lparr>outcome = RespondWith (Rejected NetworkError),
         effects = [CachesMatch (subresource ''/static/logo.png''),
                    Fetch (subresource ''/static/logo.png''), Settled],
         storage = [(CACHE_NAME, [(''/offline.html'', ok_page ''offline'')])]\<rparr>"
proof -
  let ?st = "[(CACHE_NAME, [(''/offline.html'', ok_page ''offline'')])]"
  let ?r = "subresource ''/static/logo.png''"
  have nav: "isHtmlNavigation ?r = Inr False"
    by (simp add: isHtmlNavigation_def subresource_def headers_get_def)
  have miss: "caches_match ?st ?r = None"
    by (simp add: cache_match_def subresource_def)
  have down: "network offline_host ?r = Rejected NetworkError"
    by (simp add: offline_host_def)
  from non_navigation_failure_propagates [OF nav miss down] nav miss down
  show ?thesis by simp
qed




text \<open>
  C8. The classification is \<open>true\<close> exactly when the mode is \<open>navigate\<close>, or the
  method is GET and the Accept header is present with a value containing
  \<open>text/html\<close>. For a request with no cached match and a failing or invalid network
  result, the classification alone selects the answer: the offline lookup when it is
  \<open>true\<close>, the network's own result or failure when it is \<open>false\<close>.
\<close>

theorem navigation_classification_decides_fallback:
  "(isHtmlNavigation r = Inr True \<longleftrightarrow>
      mode r = ''navigate''
      \<or> (method r = ''GET''
          \<and> (\<exists>accept. headers_get (headers r) ''accept'' = Some accept
                \<and> js_includes accept ''text/html'')))
   \<and> (\<forall>nav. isHtmlNavigation r = Inr nav \<and> caches_match st r = None
         \<and> ((\<exists>error. network h r = Rejected error)
            \<or> (\<exists>networkResponse. network h r = Fulfilled networkResponse
                 \<and> invalid_response networkResponse))
       \<longrightarrow> outcome (fetch_handler h st r)
             = (if nav then RespondWith (Fulfilled (offline_fallback st))
                else RespondWith (network h r))
         \<and> effects (fetch_handler h st r)
             = [CachesMatch r, Fetch r]
               @ (if nav then [CachesMatch (request_of_url ''/offline.html'')] else [])
               @ [Settled])"
proof -
  have "isHtmlNavigation r = Inr True \<longleftrightarrow>
      mode r = ''navigate''
      \<or> (method r = ''GET''
          \<and> (\<exists>accept. headers_get (headers r) ''accept'' = Some accept
                \<and> js_includes accept ''text/html''))"
    by (auto simp: isHtmlNavigation_def split: option.splits)
  moreover have "outcome (fetch_handler h st r)
             = (if nav then RespondWith (Fulfilled (offline_fallback st))
                else RespondWith (network h r))
         \<and> effects (fetch_handler h st r)
             = [CachesMatch r, Fetch r]
               @ (if nav then [CachesMatch (request_of_url ''/offline.html'')] else [])
               @ [Settled]"
    if "isHtmlNavigation r = Inr nav" "caches_match st r = None"
       "(\<exists>error. network h r = Rejected error)
            \<or> (\<exists>networkResponse. network h r = Fulfilled networkResponse
                 \<and> invalid_response networkResponse)" for nav
    using that by (auto simp: fetch_handler_def from_network_def)
  ultimately show ?thesis by blast
qed

theorem navigation_classification_decides_fallback_witness:
  "isHtmlNavigation (navigate_to ''/dashboard'') = Inr True
   \<and> mode (navigate_to ''/dashboard'') = ''navigate''
   \<and> caches_match [] (navigate_to ''/dashboard'') = None
   \<and> network offline_host (navigate_to ''/dashboard'') = Rejected NetworkError
   \<and> outcome (fetch_handler offline_host [] (navigate_to ''/dashboard''))
       = RespondWith (Fulfilled (offline_fallback []))
   \<and> effects (fetch_handler offline_host [] (navigate_to ''/dashboard''))
       = [CachesMatch (navigate_to ''/dashboard''), Fetch (navigate_to ''/dashboard''),
          CachesMatch (request_of_url ''/offline.html''), Settled]
   \<and> isHtmlNavigation (subresource ''/static/logo.png'') = Inr False
   \<and> caches_match [] (subresource ''/static/logo.png'') = None
   \<and> network offline_host (subresource ''/static/logo.png'') = Rejected NetworkError
   \<and> outcome (fetch_handler offline_host [] (subresource ''/static/logo.png''))
       = RespondWith (Rejected NetworkError)
   \<and> effects (fetch_handler offline_host [] (subresource ''/static/logo.png''))
       = [CachesMatch (subresource ''/static/logo.png''),
          Fetch (subresource ''/static/logo.png''), Settled]"
proof -
  let ?r = "navigate_to ''/dashboard''"
  let ?s = "subresource ''/static/logo.png''"
  have down: "network offline_host ?r = Rejected NetworkError"
    "network offline_host ?s = Rejected NetworkError"
    by (simp_all add: offline_host_def)
  have m: "mode ?r = ''navigate''" by (simp add: navigate_to_def)
  have n: "isHtmlNavigation ?s = Inr False"
    by (simp add: isHtmlNavigation_def subresource_def headers_get_def)
  have miss: "caches_match [] ?s = None" by simp
  have fails: "(\<exists>error. network offline_host ?s = Rejected error)
       \<or> (\<exists>networkResponse. network offline_host ?s = Fulfilled networkResponse
            \<and> invalid_response networkResponse)"
    using down(2) by simp
  have other: "outcome (fetch_handler offline_host [] ?s) = RespondWith (Rejected NetworkError)
       \<and> effects (fetch_handler offline_host [] ?s) = [CachesMatch ?s, Fetch ?s, Settled]"
    using navigation_classification_decides_fallback
            [of ?s "[]" offline_host, THEN conjunct2, THEN spec, of False]
          n miss fails down(2)
    by simp
  from navigation_classification_decides_fallback [of ?r "[]" offline_host]
       down m n other
  show ?thesis by simp
qed

text \<open>
  C9. A request whose mode is not \<open>navigate\<close>, whose method is GET and which has no
  Accept header makes the classification throw a TypeError; the listener ends
  there, having invoked no cache lookup and no network fetch, and hands no
  response to the host.
\<close>

theorem isHtmlNavigation_null_accept_throws:
  assumes "mode r \<noteq> ''navigate''"
    and "method r = ''GET''"
    and "headers_get (headers r) ''accept'' = None"
  shows "isHtmlNavigation r = Inl TypeError
       \<and> fetch_handler h st r = \<lparr>outcome = Threw TypeError, effects = [], storage = st\<rparr>"
  using assms by (simp add: isHtmlNavigation_def fetch_handler_def)

theorem isHtmlNavigation_null_accept_throws_witness:
  "mode (request_of_url ''/static/style.css'') \<noteq> ''navigate''
   \<and> method (request_of_url ''/static/style.css'') = ''GET''
   \<and> headers_get (headers (request_of_url ''/static/style.css'')) ''accept'' = None
   \<and> fetch_handler online_host [(CACHE_NAME, [])] (request_of_url ''/static/style.css'')
       = \<lparr>outcome = Threw TypeError, effects = [], storage = [(CACHE_NAME, [])]\<rparr>"
  using isHtmlNavigation_null_accept_throws
          [of "request_of_url ''/static/style.css''" online_host "[(CACHE_NAME, [])]"]
  by (simp add: request_of_url_def headers_get_def)

text \<open>
  C10. When no cache instance holds \<open>/offline.html\<close>, an HTML navigation with no
  cached match and a failing or invalid network result is answered with a promise
  fulfilled with \<open>undefined\<close>: no offline page and no error.
\<close>

theorem offline_page_absent_resolves_undefined:
  assumes "isHtmlNavigation r = Inr True"
    and "caches_match st r = None"
    and "(\<exists>error. network h r = Rejected error)
       \<or> (\<exists>networkResponse. network h r = Fulfilled networkResponse
            \<and> invalid_response networkResponse)"
    and "\<forall>(name, c) \<in> set st. map_of c ''/offline.html'' = None"
  shows "outcome (fetch_handler h st r) = RespondWith (Fulfilled None)"
proof -
  have "caches_match st (request_of_url ''/offline.html'') = None"
    using assms(4) by (subst caches_match_None_GET) (auto simp: request_of_url_def)
  then show ?thesis
    using assms(1-3) by (auto simp: fetch_handler_def from_network_def offline_fallback_def)
qed

theorem offline_page_absent_resolves_undefined_witness:
  "isHtmlNavigation (navigate_to ''/dashboard'') = Inr True
   \<and> caches_match [(CACHE_NAME, [(''/'', ok_page ''index'')])] (navigate_to ''/dashboard'') = None
   \<and> network offline_host (navigate_to ''/dashboard'') = Rejected NetworkError
   \<and> map_of [(''/'', ok_page ''index'')] ''/offline.html'' = None
   \<and> outcome (fetch_handler offline_host [(CACHE_NAME, [(''/'', ok_page ''index'')])]
        (navigate_to ''/dashboard''))
      = RespondWith (Fulfilled None)"
proof -
  let ?st = "[(CACHE_NAME, [(''/'', ok_page ''index'')])]"
  let ?r = "navigate_to ''/dashboard''"
  have nav: "isHtmlNavigation ?r = Inr True"
    by (simp add: isHtmlNavigation_def navigate_to_def)
  have miss: "caches_match ?st ?r = None"
    by (simp add: cache_match_def navigate_to_def)
  have down: "network offline_host ?r = Rejected NetworkError"
    by (simp add: offline_host_def)
  have absent: "\<forall>(name, c) \<in> set ?st. map_of c ''/offline.html'' = None" by simp
  from offline_page_absent_resolves_undefined [of ?r ?st offline_host] nav miss down absent
  show ?thesis by simp
qed

subsection \<open>The install listener\<close>







subsection \<open>The activate listener\<close>

lemma fold_caches_delete:
  "fold (\<lambda>cacheName s. caches_delete s cacheName) names st
     = filter (\<lambda>(n, c). n \<notin> set names) st"
proof (induction names arbitrary: st)
  case Nil
  then show ?case by simp
next
  case (Cons x names)
  have "filter (\<lambda>(n, c). n \<notin> set names) (caches_delete st x)
          = filter (\<lambda>(n, c). n \<notin> set (x # names)) st"
    by (induction st) (auto simp: caches_delete_def)
  with Cons show ?case by simp
qed

lemma activate_storage:
  "storage (activate_handler st) = filter (\<lambda>(n, c). n = CACHE_NAME) st"
proof -
  have "filter (\<lambda>(n, c). n \<notin> set (filter (\<lambda>cacheName. cacheName \<notin> set cacheWhitelist) (caches_keys st))) st
          = filter (\<lambda>(n, c). n = CACHE_NAME) st"
    by (rule filter_cong) (force simp: cacheWhitelist_def caches_keys_def)+
  then show ?thesis
    by (simp add: activate_handler_def Let_def fold_caches_delete)
qed

text \<open>
  C5 as first stated (the names after the cleanup are exactly the current
  generation identifier) fails. The listener deletes and never creates: when the
  install could not open the storage, activation leaves no instance at all.
\<close>

theorem activate_without_current_generation:
  "set (caches_keys (storage (activate_handler
          (storage (install_handler sealed_host [(''goldshop-cache-v2'', [])])))))
     \<noteq> {CACHE_NAME}"
  by (simp add: activate_storage install_handler_def sealed_host_def CACHE_NAME_def
      caches_keys_def)

text \<open>
  C5 (amended). After the cleanup, every instance whose name differs from the
  current generation identifier is gone, and the current-generation instance is kept
  with its entries. The names that remain are the current identifier alone when that
  instance existed before activation, and none otherwise.
\<close>

theorem activate_generation_sweep:
  "set (caches_keys (storage (activate_handler st)))
     = (if CACHE_NAME \<in> set (caches_keys st) then {CACHE_NAME} else {})
   \<and> (\<forall>name \<in> set (caches_keys st). name \<noteq> CACHE_NAME
        \<longrightarrow> name \<notin> set (caches_keys (storage (activate_handler st))))
   \<and> (\<forall>u. entry_in (storage (activate_handler st)) CACHE_NAME u = entry_in st CACHE_NAME u)"
proof -
  have keys: "set (caches_keys (storage (activate_handler st)))
                = set (caches_keys st) \<inter> {CACHE_NAME}"
    by (auto simp: activate_storage caches_keys_def)
  have kept: "entry_in (storage (activate_handler st)) CACHE_NAME u = entry_in st CACHE_NAME u" for u
    by (simp add: entry_in_def activate_storage map_of_filter_key)
  from keys kept show ?thesis by auto
qed

theorem activate_generation_sweep_witness:
  "set (caches_keys (storage (activate_handler
      [(''goldshop-cache-v2'', [(''/'', ok_page ''old'')]), (CACHE_NAME, [(''/'', ok_page ''new'')])])))
     = {CACHE_NAME}
   \<and> ''goldshop-cache-v2'' \<noteq> CACHE_NAME
   \<and> ''goldshop-cache-v2'' \<notin> set (caches_keys (storage (activate_handler
      [(''goldshop-cache-v2'', [(''/'', ok_page ''old'')]), (CACHE_NAME, [(''/'', ok_page ''new'')])])))
   \<and> entry_in (storage (activate_handler
      [(''goldshop-cache-v2'', [(''/'', ok_page ''old'')]), (CACHE_NAME, [(''/'', ok_page ''new'')])]))
        CACHE_NAME ''/'' = Some (ok_page ''new'')
   \<and> set (caches_keys (storage (activate_handler [(''goldshop-cache-v2'', [])]))) = {}"
proof -
  let ?st = "[(''goldshop-cache-v2'', [(''/'', ok_page ''old'')]), (CACHE_NAME, [(''/'', ok_page ''new'')])]"
  have differs: "''goldshop-cache-v2'' \<noteq> CACHE_NAME" by (simp add: CACHE_NAME_def)
  have keys: "caches_keys ?st = [''goldshop-cache-v2'', CACHE_NAME]"
             "caches_keys [(''goldshop-cache-v2'', [])] = [''goldshop-cache-v2'']"
    by (simp_all add: caches_keys_def)
  have entry: "entry_in ?st CACHE_NAME ''/'' = Some (ok_page ''new'')"
    using differs by (simp add: entry_in_def)
  from activate_generation_sweep [of ?st]
       activate_generation_sweep [of "[(''goldshop-cache-v2'', [])]"] differs keys entry
  show ?thesis by simp
qed

text \<open>
  C7 as first stated (the claim comes only after every stale deletion has been
  attempted) fails: with one stale instance present, \<open>clients.claim()\<close> is not
  preceded by the deletion of that instance.
\<close>

theorem activate_claims_before_deleting:
  "\<not> occurs_before (CachesDelete ''goldshop-cache-v2'') ClientsClaim
       (effects (activate_handler [(''goldshop-cache-v2'', []), (''goldshop-cache-v3'', [])]))"
  by (simp add: activate_handler_def Let_def cacheWhitelist_def CACHE_NAME_def caches_keys_def)

text \<open>
  C7 (amended). \<open>clients.claim()\<close> is invoked in the listener body, before the
  deletion of any stale instance is attempted; the deletions are awaited
  collectively by the promise handed to \<open>waitUntil\<close>, which settles after each of
  them, and not by the claim.
\<close>

theorem activate_claim_precedes_cleanup:
  "occurs_before ClientsClaim Settled (effects (activate_handler st))
   \<and> (\<forall>name \<in> set (caches_keys st). name \<noteq> CACHE_NAME \<longrightarrow>
          occurs_before ClientsClaim (CachesDelete name) (effects (activate_handler st))
          \<and> occurs_before (CachesDelete name) Settled (effects (activate_handler st)))"
proof -
  let ?stale = "filter (\<lambda>cacheName. cacheName \<notin> set cacheWhitelist) (caches_keys st)"
  have eff: "effects (activate_handler st)
               = (CachesKeys # ClientsClaim # map CachesDelete ?stale) @ Settled # []"
    by (simp add: activate_handler_def Let_def)
  have first: "occurs_before ClientsClaim Settled (effects (activate_handler st))"
    unfolding eff by (intro occurs_before_append) auto
  have order: "occurs_before ClientsClaim (CachesDelete name) (effects (activate_handler st))
       \<and> occurs_before (CachesDelete name) Settled (effects (activate_handler st))"
    if "name \<in> set (caches_keys st)" "name \<noteq> CACHE_NAME" for name
  proof -
    have stale: "name \<in> set ?stale"
      using that by (simp add: cacheWhitelist_def)
    have "occurs_before ClientsClaim (CachesDelete name) (effects (activate_handler st))"
      using stale by (simp add: activate_handler_def Let_def)
    moreover have "occurs_before (CachesDelete name) Settled (effects (activate_handler st))"
      unfolding eff using stale by (intro occurs_before_append) auto
    ultimately show ?thesis by simp
  qed
  from first order show ?thesis by blast
qed

theorem activate_claim_precedes_cleanup_witness:
  "''goldshop-cache-v2'' \<in> set (caches_keys [(''goldshop-cache-v2'', []), (CACHE_NAME, [])])
   \<and> ''goldshop-cache-v2'' \<noteq> CACHE_NAME
   \<and> occurs_before ClientsClaim Settled
        (effects (activate_handler [(''goldshop-cache-v2'', []), (CACHE_NAME, [])]))
   \<and> occurs_before ClientsClaim (CachesDelete ''goldshop-cache-v2'')
        (effects (activate_handler [(''goldshop-cache-v2'', []), (CACHE_NAME, [])]))
   \<and> occurs_before (CachesDelete ''goldshop-cache-v2'') Settled
        (effects (activate_handler [(''goldshop-cache-v2'', []), (CACHE_NAME, [])]))
   \<and> effects (activate_handler [(''goldshop-cache-v2'', []), (CACHE_NAME, [])])
       = [CachesKeys, ClientsClaim, CachesDelete ''goldshop-cache-v2'', Settled]"
proof -
  let ?st = "[(''goldshop-cache-v2'', []), (CACHE_NAME, [])]"
  have mem: "''goldshop-cache-v2'' \<in> set (caches_keys ?st)" by (simp add: caches_keys_def)
  have differs: "''goldshop-cache-v2'' \<noteq> CACHE_NAME" by (simp add: CACHE_NAME_def)
  have eff: "effects (activate_handler ?st)
       = [CachesKeys, ClientsClaim, CachesDelete ''goldshop-cache-v2'', Settled]"
    by (simp add: activate_handler_def Let_def cacheWhitelist_def CACHE_NAME_def caches_keys_def)
  from activate_claim_precedes_cleanup [of ?st, THEN conjunct1]
       activate_claim_precedes_cleanup [of ?st, THEN conjunct2, THEN bspec, OF mem]
       mem differs eff
  show ?thesis by simp
qed

end
